theory Spec2Isabelle
  imports Main "HOL-Library.Sublist"
begin

section \<open>Python values, exceptions and string operations\<close>

text \<open>
  Python text is modelled as \<^typ>\<open>string\<close>, each \<^typ>\<open>char\<close> standing for one code point
  below 256. An exception is a value. \<open>Exception m\<close> is an exception raised by a remote
  call whose class derives from Python's \<open>Exception\<close>, with \<open>m\<close> its text \<open>str(e)\<close>;
  \<open>AttributeError\<close>, \<open>TypeError\<close> and \<open>IndexError\<close> are the built-in subclasses of
  \<open>Exception\<close> that the code's own expressions can raise, \<open>TypeError\<close> with its text;
  \<open>BaseException m\<close> is an exception that derives
  from \<open>BaseException\<close> only (\<open>KeyboardInterrupt\<close>, \<open>SystemExit\<close>), which the clause
  \<open>except Exception\<close> does not catch.
\<close>

datatype exn =
    Exception string
  | AttributeError string string
  | TypeError string
  | IndexError
  | BaseException string

fun isinstance_Exception :: "exn \<Rightarrow> bool" where
  "isinstance_Exception (BaseException m) = False"
| "isinstance_Exception e = True"

fun str_exn :: "exn \<Rightarrow> string" where
  "str_exn (Exception m) = m"
| "str_exn (AttributeError ty attr) =
     CHR 0x27 # ty @ CHR 0x27 # '' object has no attribute '' @ CHR 0x27 # attr @ [CHR 0x27]"
| "str_exn (TypeError m) = m"
| "str_exn IndexError = ''list index out of range''"
| "str_exn (BaseException m) = m"

text \<open>
  Dynamically typed values that a caller can pass where the source annotates \<open>str\<close>:
  strings, \<open>None\<close>, integers, booleans and \<open>bytes\<close> objects.
\<close>

datatype pyval = PStr string | PNone | PInt int | PBool bool | PBytes string


fun truthy :: "pyval \<Rightarrow> bool" where
  "truthy (PStr s) = (s \<noteq> [])"
| "truthy PNone = False"
| "truthy (PInt i) = (i \<noteq> 0)"
| "truthy (PBool b) = b"
| "truthy (PBytes b) = (b \<noteq> [])"

fun type_name :: "pyval \<Rightarrow> string" where
  "type_name (PStr s) = ''str''"
| "type_name PNone = ''NoneType''"
| "type_name (PInt i) = ''int''"
| "type_name (PBool b) = ''bool''"
| "type_name (PBytes b) = ''bytes''"

text \<open>
  \<open>s.replace(old, new)\<close>: every occurrence of \<open>old\<close>, found from the left and not
  overlapping, is replaced; an empty \<open>old\<close> matches before every character and at the end.
\<close>

fun replace_ne :: "string \<Rightarrow> string \<Rightarrow> string \<Rightarrow> string" where
  "replace_ne old new [] = []"
| "replace_ne old new (c # cs) =
     (if prefix old (c # cs) then new @ replace_ne old new (drop (length old - 1) cs)
      else c # replace_ne old new cs)"

definition replace :: "string \<Rightarrow> string \<Rightarrow> string \<Rightarrow> string" where
  "replace s old new =
     (if old = [] then new @ concat (map (\<lambda>c. c # new) s) else replace_ne old new s)"

text \<open>
  \<open>v.replace(old, new)\<close> on a dynamic value, with two strings as arguments: \<open>str\<close> has
  the method; \<open>bytes\<close> has one that refuses string arguments with a \<open>TypeError\<close>; the
  other types have none.
\<close>

fun replace_attr :: "pyval \<Rightarrow> string \<Rightarrow> string \<Rightarrow> exn + string" where
  "replace_attr (PStr s) old new = Inr (replace s old new)"
| "replace_attr (PBytes b) old new =
     Inl (TypeError (''a bytes-like object is required, not '' @ CHR 0x27 # ''str'' @ [CHR 0x27]))"
| "replace_attr v old new = Inl (AttributeError (type_name v) ''replace'')"

text \<open>\<open>sep.join(xs)\<close>.\<close>

fun join :: "string \<Rightarrow> string list \<Rightarrow> string" where
  "join sep [] = []"
| "join sep [x] = x"
| "join sep (x # y # ys) = x @ sep @ join sep (y # ys)"

text \<open>
  \<open>s.strip()\<close> removes the characters for which \<open>str.isspace\<close> holds from both ends:
  below 256 these are the code points 9 to 13, 28 to 32, 133 and 160.
\<close>

definition isspace :: "char \<Rightarrow> bool" where
  "isspace c = (let n = (of_char c :: nat) in
     (9 \<le> n \<and> n \<le> 13) \<or> (28 \<le> n \<and> n \<le> 32) \<or> n = 133 \<or> n = 160)"

definition strip :: "string \<Rightarrow> string" where
  "strip s = rev (dropWhile isspace (rev (dropWhile isspace s)))"

section \<open>Presentation layer\<close>

definition HTML :: string where
  \<open>HTML = concat [
     ''\<newline>'',
     ''<!DOCTYPE html>\<newline>'',
     ''<html>\<newline>'',
     ''<head>\<newline>'',
     ''  <meta charset="utf-8" />\<newline>'',
     ''  <title>Leadership Change Assistant</title>\<newline>'',
     ''  <style>\<newline>'',
     ''    body {\<newline>'',
     ''      font-family: system-ui, -apple-system, BlinkMacSystemFont, sans-serif;\<newline>'',
     ''      max-width: 900px;\<newline>'',
     ''      margin: 40px auto;\<newline>'',
     ''      padding: 0 16px 40px;\<newline>'',
     ''      background: #fafafa;\<newline>'',
     ''    }\<newline>'',
     ''    h1 {\<newline>'',
     ''      font-size: 26px;\<newline>'',
     ''      margin-bottom: 4px;\<newline>'',
     ''    }\<newline>'',
     ''    .subtitle {\<newline>'',
     ''      color: #666;\<newline>'',
     ''      margin-bottom: 20px;\<newline>'',
     ''      font-size: 14px;\<newline>'',
     ''    }\<newline>'',
     ''    form {\<newline>'',
     ''      background: #ffffff;\<newline>'',
     ''      padding: 16px;\<newline>'',
     ''      border-radius: 12px;\<newline>'',
     ''      box-shadow: 0 4px 12px rgba(0,0,0,0.03);\<newline>'',
     ''      margin-bottom: 16px;\<newline>'',
     ''    }\<newline>'',
     ''    textarea {\<newline>'',
     ''      width: 100%;\<newline>'',
     ''      min-height: 90px;\<newline>'',
     ''      padding: 10px;\<newline>'',
     ''      font-family: inherit;\<newline>'',
     ''      font-size: 14px;\<newline>'',
     ''      border-radius: 8px;\<newline>'',
     ''      border: 1px solid #ddd;\<newline>'',
     ''      box-sizing: border-box;\<newline>'',
     ''      resize: vertical;\<newline>'',
     ''    }\<newline>'',
     ''    button {\<newline>'',
     ''      margin-top: 10px;\<newline>'',
     ''      padding: 8px 18px;\<newline>'',
     ''      cursor: pointer;\<newline>'',
     ''      border-radius: 999px;\<newline>'',
     ''      border: none;\<newline>'',
     ''      font-size: 14px;\<newline>'',
     ''      background: #111827;\<newline>'',
     ''      color: #fff;\<newline>'',
     ''    }\<newline>'',
     ''    button:hover {\<newline>'',
     ''      background: #111827ee;\<newline>'',
     ''    }\<newline>'',
     ''    .answer {\<newline>'',
     ''      margin-top: 12px;\<newline>'',
     ''      padding: 14px;\<newline>'',
     ''      border-radius: 12px;\<newline>'',
     ''      background: #f3f4f6;\<newline>'',
     ''      white-space: pre-wrap;\<newline>'',
     ''      font-size: 14px;\<newline>'',
     ''      line-height: 1.5;\<newline>'',
     ''    }\<newline>'',
     ''    .label {\<newline>'',
     ''      font-weight: 600;\<newline>'',
     ''      margin-bottom: 6px;\<newline>'',
     ''      display:block;\<newline>'',
     ''      font-size: 14px;\<newline>'',
     ''    }\<newline>'',
     ''    .hint {\<newline>'',
     ''      font-size: 12px;\<newline>'',
     ''      color: #888;\<newline>'',
     ''      margin-top: 4px;\<newline>'',
     ''    }\<newline>'',
     ''  </style>\<newline>'',
     ''</head>\<newline>'',
     ''<body>\<newline>'',
     ''  <h1>Leadership Change Assistant</h1>\<newline>'',
     ''  <div class="subtitle">\<newline>'',
     ''    Query executive & director leadership changes (e.g. 8-K Item 5.02 events) across tracked companies.\<newline>'',
     ''    Try: <code>Show me leadership changes for Apple in 2025.</code>\<newline>'',
     ''  </div>\<newline>'',
     ''\<newline>'',
     ''  <form method="post" action="/chat">\<newline>'',
     ''    <label for="message" class="label">Your question</label>\<newline>'',
     ''    <textarea id="message" name="message" required>{{message}}</textarea>\<newline>'',
     ''    <div class="hint">\<newline>'',
     ''      The agent will search recent filings and summarize relevant leadership moves.\<newline>'',
     ''    </div>\<newline>'',
     ''    <button type="submit">Ask</button>\<newline>'',
     ''  </form>\<newline>'',
     ''\<newline>'',
     ''  {{answer_block}}\<newline>'',
     ''</body>\<newline>'',
     ''</html>\<newline>''
   ]\<close>

text \<open>
  The chain \<open>v.replace("&", "&amp;").replace("<", "&lt;").replace(">", "&gt;")\<close>, which
  \<open>render\<close> applies to the answer and to the message.
\<close>

definition escape :: "pyval \<Rightarrow> exn + string" where
  "escape v =
     (case replace_attr v ''&'' ''&amp;'' of
        Inl e \<Rightarrow> Inl e
      | Inr s \<Rightarrow> Inr (replace (replace s ''<'' ''&lt;'') ''>'' ''&gt;''))"

text \<open>\<open>render\<close> returns the content of the \<open>HTMLResponse\<close> it builds.\<close>

definition render :: "pyval \<Rightarrow> pyval \<Rightarrow> exn + string" where
  \<open>render message answer =
     (case (if truthy answer
            then (case escape answer of
                    Inl e \<Rightarrow> Inl e
                  | Inr safe_answer \<Rightarrow>
                      Inr (''<div class="answer">'' @ ''<strong>Answer</strong><br/>''
                           @ safe_answer @ ''</div>''))
            else Inr '''') of
        Inl e \<Rightarrow> Inl e
      | Inr answer_block \<Rightarrow>
          (case escape (if truthy message then message else PStr '''') of
             Inl e \<Rightarrow> Inl e
           | Inr safe_message \<Rightarrow>
               Inr (replace (replace HTML ''{{message}}'' safe_message)
                      ''{{answer_block}}'' answer_block)))\<close>

text \<open>The routes: \<open>GET /\<close> renders the defaults.\<close>

definition index :: "exn + string" where
  "index = render (PStr '''') (PStr '''')"

section \<open>Startup configuration\<close>

text \<open>\<open>os.environ.get(key, default)\<close> on the environment, a map from names to values.\<close>

definition environ_get :: "(string \<rightharpoonup> string) \<Rightarrow> string \<Rightarrow> string \<Rightarrow> string" where
  "environ_get environ key dflt = (case environ key of None \<Rightarrow> dflt | Some v \<Rightarrow> v)"

record config =
  PROJECT_ENDPOINT :: string
  AGENT_ID :: string

text \<open>
  The module-level configuration code: it either raises the \<open>RuntimeError\<close> (a subclass
  of \<open>Exception\<close>) or goes on with both values.
\<close>

definition startup :: "(string \<rightharpoonup> string) \<Rightarrow> exn + config" where
  "startup environ =
     (let pe = environ_get environ ''PROJECT_ENDPOINT''
                 ''https://companyresearch.services.ai.azure.com/api/projects/companyResearch'';
          aid = environ_get environ ''AGENT_ID'' ''asst_Wb2ElHzBXdZtjCIOXlwoE8a3''
      in if pe = [] then Inl (Exception ''PROJECT_ENDPOINT is not set.'')
         else if aid = [] then Inl (Exception ''AGENT_ID is not set.'')
         else Inr \<lparr>PROJECT_ENDPOINT = pe, AGENT_ID = aid\<rparr>)"

section \<open>Agent relay\<close>

text \<open>
  What the remote service returns. \<open>last_error\<close> is the text that the f-string gives for
  \<open>run.last_error\<close>; \<open>text_messages\<close> is \<open>getattr(msg, "text_messages", None)\<close>, with
  \<open>None\<close> where the attribute is missing; \<open>text_value\<close> is \<open>chunk.text.value\<close>.
\<close>

record agent =
  agent_id :: string

record thread =
  thread_id :: string

record run =
  status :: string
  last_error :: string

record chunk =
  text_value :: string

record message =
  role :: string
  text_messages :: "chunk list option"

datatype list_sort_order = ASCENDING | DESCENDING

text \<open>The remote calls that the relay issues, in the order it issues them.\<close>

datatype call =
    GetAgent string
  | ThreadsCreate
  | MessagesCreate string string string
  | CreateAndProcess string string
  | MessagesList string list_sort_order

text \<open>
  The shared client \<open>project\<close>. The remote service is opaque: each operation answers as a
  function of the calls issued so far and of its arguments, with a value or an exception.
  An exception of \<open>agents_messages_list\<close> stands for one raised by the call or while the
  loop pages through its result.
\<close>

record project =
  agents_get_agent :: "call list \<Rightarrow> string \<Rightarrow> exn + agent"
  agents_threads_create :: "call list \<Rightarrow> exn + thread"
  agents_messages_create :: "call list \<Rightarrow> string \<Rightarrow> string \<Rightarrow> string \<Rightarrow> exn + unit"
  agents_runs_create_and_process :: "call list \<Rightarrow> string \<Rightarrow> string \<Rightarrow> exn + run"
  agents_messages_list :: "call list \<Rightarrow> string \<Rightarrow> list_sort_order \<Rightarrow> exn + message list"

text \<open>\<open>xs[-1]\<close>.\<close>

definition index_last :: "'a list \<Rightarrow> exn + 'a" where
  "index_last xs = (if xs = [] then Inl IndexError else Inr (last xs))"

text \<open>The truth value of \<open>getattr(msg, "text_messages", None)\<close>.\<close>

fun truthy_attr :: "chunk list option \<Rightarrow> bool" where
  "truthy_attr None = False"
| "truthy_attr (Some cs) = (cs \<noteq> [])"

text \<open>\<open>msg.text_messages[-1].text.value\<close>.\<close>

definition latest_text :: "message \<Rightarrow> exn + string" where
  "latest_text msg =
     (case text_messages msg of
        None \<Rightarrow> Inl (AttributeError ''ThreadMessage'' ''text_messages'')
      | Some cs \<Rightarrow>
          (case index_last cs of Inl e \<Rightarrow> Inl e | Inr c \<Rightarrow> Inr (text_value c)))"

text \<open>The loop over \<open>messages\<close>, with the list \<open>answers\<close> built so far.\<close>

fun collect :: "message list \<Rightarrow> string list \<Rightarrow> exn + string list" where
  "collect [] answers = Inr answers"
| "collect (msg # rest) answers =
     (if role msg = ''assistant'' \<and> truthy_attr (text_messages msg)
      then (case latest_text msg of
              Inl e \<Rightarrow> Inl e
            | Inr t \<Rightarrow> collect rest (answers @ [t]))
      else collect rest answers)"

text \<open>
  The body of the \<open>try\<close> block: the result (\<open>Inl\<close> an exception raised in it) and the
  calls issued, added to those issued before.
\<close>

definition call_agent_try ::
  "project \<Rightarrow> string \<Rightarrow> string \<Rightarrow> call list \<Rightarrow> (exn + string) \<times> call list" where
  "call_agent_try p aid user_message h0 =
     (let h1 = h0 @ [GetAgent aid] in
      case agents_get_agent p h0 aid of
        Inl e \<Rightarrow> (Inl e, h1)
      | Inr agent \<Rightarrow>
     (let h2 = h1 @ [ThreadsCreate] in
      case agents_threads_create p h1 of
        Inl e \<Rightarrow> (Inl e, h2)
      | Inr thread \<Rightarrow>
     (let h3 = h2 @ [MessagesCreate (thread_id thread) ''user'' user_message] in
      case agents_messages_create p h2 (thread_id thread) ''user'' user_message of
        Inl e \<Rightarrow> (Inl e, h3)
      | Inr u \<Rightarrow>
     (let h4 = h3 @ [CreateAndProcess (thread_id thread) (agent_id agent)] in
      case agents_runs_create_and_process p h3 (thread_id thread) (agent_id agent) of
        Inl e \<Rightarrow> (Inl e, h4)
      | Inr run \<Rightarrow>
          if status run = ''failed'' then (Inr (''Run failed: '' @ last_error run), h4)
          else
     (let h5 = h4 @ [MessagesList (thread_id thread) ASCENDING] in
      case agents_messages_list p h4 (thread_id thread) ASCENDING of
        Inl e \<Rightarrow> (Inl e, h5)
      | Inr messages \<Rightarrow>
          (case collect messages [] of
             Inl e \<Rightarrow> (Inl e, h5)
           | Inr answers \<Rightarrow>
               if answers = [] then (Inr ''(No assistant reply found.)'', h5)
               else (Inr (strip (join ''\<newline>\<newline>'' answers)), h5)))))))"

text \<open>
  \<open>call_agent\<close>: the \<open>try\<close> block under \<open>except Exception as e\<close>. \<open>aid\<close> is the configured
  \<open>AGENT_ID\<close>. The result is \<open>Inr\<close> the returned string, or \<open>Inl\<close> an exception that leaves
  the function.
\<close>

definition call_agent ::
  "project \<Rightarrow> string \<Rightarrow> string \<Rightarrow> call list \<Rightarrow> (exn + string) \<times> call list" where
  "call_agent p aid user_message h0 =
     (case call_agent_try p aid user_message h0 of
        (Inl e, h) \<Rightarrow>
          if isinstance_Exception e then (Inr (''Error calling agent: '' @ str_exn e), h)
          else (Inl e, h)
      | (Inr s, h) \<Rightarrow> (Inr s, h))"

text \<open>\<open>POST /chat\<close>: the relay's answer is rendered with the submitted message.\<close>

definition chat ::
  "project \<Rightarrow> string \<Rightarrow> string \<Rightarrow> call list \<Rightarrow> (exn + string) \<times> call list" where
  "chat p aid message h0 =
     (case call_agent p aid message h0 of
        (Inl e, h) \<Rightarrow> (Inl e, h)
      | (Inr answer, h) \<Rightarrow> (render (PStr message) (PStr answer), h))"

section \<open>Specification-side notions\<close>

text \<open>What escaping one character gives when nothing is escaped twice.\<close>

definition escape_char :: "char \<Rightarrow> string" where
  "escape_char c =
     (if c = CHR ''&'' then ''&amp;''
      else if c = CHR ''<'' then ''&lt;''
      else if c = CHR ''>'' then ''&gt;''
      else [c])"


text \<open>The three parts of the template around its two placeholders.\<close>

definition HTML_pre :: string where
  "HTML_pre = take 1953 HTML"

definition HTML_mid :: string where
  "HTML_mid = take 182 (drop 1964 HTML)"

definition HTML_post :: string where
  "HTML_post = drop 2162 HTML"

text \<open>
  \<open>clear_before old xs\<close>: no occurrence of \<open>old\<close> begins inside \<open>xs\<close>, whatever text
  follows \<open>xs\<close>.
\<close>

fun clear_before :: "string \<Rightarrow> string \<Rightarrow> bool" where
  "clear_before old [] = True"
| "clear_before old (c # cs) =
     (\<not> prefix old (c # cs) \<and> \<not> prefix (c # cs) old \<and> clear_before old cs)"

text \<open>The answer block that \<open>render\<close> builds for an answer string.\<close>

definition answer_block_of :: "string \<Rightarrow> string" where
  \<open>answer_block_of a =
     (if a = [] then []
      else ''<div class="answer"><strong>Answer</strong><br/>''
           @ concat (map escape_char a) @ ''</div>'')\<close>

text \<open>
  An assistant-role message that carries at least one text chunk, and the text of the
  last chunk of a message.
\<close>

definition assistant_with_text :: "message \<Rightarrow> bool" where
  "assistant_with_text msg =
     (role msg = ''assistant'' \<and>
      (case text_messages msg of None \<Rightarrow> False | Some cs \<Rightarrow> cs \<noteq> []))"

definition last_chunk_text :: "message \<Rightarrow> string" where
  "last_chunk_text msg =
     (case text_messages msg of None \<Rightarrow> [] | Some cs \<Rightarrow> text_value (last cs))"

text \<open>
  The first four steps of the relay returned: the agent, the thread, the posted message
  and the run. \<open>calls_upto_run\<close> are the calls issued until then.
\<close>

definition calls_upto_run :: "string \<Rightarrow> string \<Rightarrow> agent \<Rightarrow> thread \<Rightarrow> call list" where
  "calls_upto_run aid user_message agent thread =
     [GetAgent aid, ThreadsCreate, MessagesCreate (thread_id thread) ''user'' user_message,
      CreateAndProcess (thread_id thread) (agent_id agent)]"

definition run_reached ::
  "project \<Rightarrow> string \<Rightarrow> string \<Rightarrow> call list \<Rightarrow> agent \<Rightarrow> thread \<Rightarrow> run \<Rightarrow> bool" where
  "run_reached p aid user_message h0 agent thread run =
     (agents_get_agent p h0 aid = Inr agent \<and>
      agents_threads_create p (h0 @ [GetAgent aid]) = Inr thread \<and>
      agents_messages_create p (h0 @ [GetAgent aid, ThreadsCreate])
        (thread_id thread) ''user'' user_message = Inr () \<and>
      agents_runs_create_and_process p
        (h0 @ [GetAgent aid, ThreadsCreate,
               MessagesCreate (thread_id thread) ''user'' user_message])
        (thread_id thread) (agent_id agent) = Inr run)"

text \<open>The messages that the listing step returns after a run was reached.\<close>

definition listed ::
  "project \<Rightarrow> string \<Rightarrow> string \<Rightarrow> call list \<Rightarrow> agent \<Rightarrow> thread \<Rightarrow> exn + message list" where
  "listed p aid user_message h0 agent thread =
     agents_messages_list p (h0 @ calls_upto_run aid user_message agent thread)
       (thread_id thread) ASCENDING"

text \<open>
  An exception is raised at some step of the relay sequence: by one of the five remote
  calls, the steps before it having returned, or by the loop over the messages.
\<close>

inductive raises :: "project \<Rightarrow> string \<Rightarrow> string \<Rightarrow> call list \<Rightarrow> exn \<Rightarrow> bool"
  for p aid user_message h0 where
  at_get_agent:
    "agents_get_agent p h0 aid = Inl e \<Longrightarrow> raises p aid user_message h0 e"
| at_threads_create:
    "agents_get_agent p h0 aid = Inr agent \<Longrightarrow>
     agents_threads_create p (h0 @ [GetAgent aid]) = Inl e \<Longrightarrow>
     raises p aid user_message h0 e"
| at_messages_create:
    "agents_get_agent p h0 aid = Inr agent \<Longrightarrow>
     agents_threads_create p (h0 @ [GetAgent aid]) = Inr thread \<Longrightarrow>
     agents_messages_create p (h0 @ [GetAgent aid, ThreadsCreate])
       (thread_id thread) ''user'' user_message = Inl e \<Longrightarrow>
     raises p aid user_message h0 e"
| at_create_and_process:
    "agents_get_agent p h0 aid = Inr agent \<Longrightarrow>
     agents_threads_create p (h0 @ [GetAgent aid]) = Inr thread \<Longrightarrow>
     agents_messages_create p (h0 @ [GetAgent aid, ThreadsCreate])
       (thread_id thread) ''user'' user_message = Inr () \<Longrightarrow>
     agents_runs_create_and_process p
       (h0 @ [GetAgent aid, ThreadsCreate,
              MessagesCreate (thread_id thread) ''user'' user_message])
       (thread_id thread) (agent_id agent) = Inl e \<Longrightarrow>
     raises p aid user_message h0 e"
| at_messages_list:
    "run_reached p aid user_message h0 agent thread run \<Longrightarrow>
     status run \<noteq> ''failed'' \<Longrightarrow>
     listed p aid user_message h0 agent thread = Inl e \<Longrightarrow>
     raises p aid user_message h0 e"
| at_loop:
    "run_reached p aid user_message h0 agent thread run \<Longrightarrow>
     status run \<noteq> ''failed'' \<Longrightarrow>
     listed p aid user_message h0 agent thread = Inr messages \<Longrightarrow>
     collect messages [] = Inl e \<Longrightarrow>
     raises p aid user_message h0 e"

text \<open>A client whose five operations answer with fixed values, for concrete runs.\<close>

definition fixed_project ::
  "exn + agent \<Rightarrow> exn + thread \<Rightarrow> exn + unit \<Rightarrow> exn + run \<Rightarrow> exn + message list \<Rightarrow> project" where
  "fixed_project a t u r ms =
     \<lparr>agents_get_agent = (\<lambda>h i. a),
      agents_threads_create = (\<lambda>h. t),
      agents_messages_create = (\<lambda>h tid rl c. u),
      agents_runs_create_and_process = (\<lambda>h tid i. r),
      agents_messages_list = (\<lambda>h tid ord. ms)\<rparr>"

definition text_message :: "string \<Rightarrow> string list \<Rightarrow> message" where
  "text_message r ts = \<lparr>role = r, text_messages = Some (map (\<lambda>t. \<lparr>text_value = t\<rparr>) ts)\<rparr>"

text \<open>A concrete service whose calls all return, for runs on concrete inputs.\<close>

definition demo_agent :: agent where
  "demo_agent = \<lparr>agent_id = ''asst_1''\<rparr>"

definition demo_thread :: thread where
  "demo_thread = \<lparr>thread_id = ''thread_1''\<rparr>"

definition demo_run :: "string \<Rightarrow> run" where
  "demo_run st = \<lparr>status = st, last_error = ''rate_limit_exceeded''\<rparr>"

definition demo_project :: "string \<Rightarrow> message list \<Rightarrow> project" where
  "demo_project st ms =
     fixed_project (Inr demo_agent) (Inr demo_thread) (Inr ()) (Inr (demo_run st)) (Inr ms)"

section \<open>The reply-collection loop\<close>

lemma collect_eq:
  "collect msgs answers = Inr (answers @ map last_chunk_text (filter assistant_with_text msgs))"
proof (induction msgs arbitrary: answers)
  case Nil
  then show ?case by simp
next
  case (Cons msg rest)
  show ?case
  proof (cases "text_messages msg")
    case None
    then show ?thesis using Cons.IH by (simp add: assistant_with_text_def)
  next
    case (Some cs)
    then show ?thesis using Cons.IH
      by (simp add: assistant_with_text_def latest_text_def index_last_def last_chunk_text_def)
  qed
qed

section \<open>The relay once the run was reached\<close>

lemma try_run_reached:
  assumes "run_reached p aid um h0 agent thread run"
  shows "call_agent_try p aid um h0 =
     (if status run = ''failed''
      then (Inr (''Run failed: '' @ last_error run), h0 @ calls_upto_run aid um agent thread)
      else (case listed p aid um h0 agent thread of
              Inl e \<Rightarrow> (Inl e, h0 @ calls_upto_run aid um agent thread
                                  @ [MessagesList (thread_id thread) ASCENDING])
            | Inr messages \<Rightarrow>
                (let answers = map last_chunk_text (filter assistant_with_text messages)
                 in (Inr (if answers = [] then ''(No assistant reply found.)''
                          else strip (join ''\<newline>\<newline>'' answers)),
                     h0 @ calls_upto_run aid um agent thread
                        @ [MessagesList (thread_id thread) ASCENDING]))))"
  using assms
  by (simp add: run_reached_def call_agent_try_def listed_def calls_upto_run_def Let_def
      collect_eq split: sum.splits)

lemma demo_run_reached:
  "run_reached (demo_project st ms) aid um h0 demo_agent demo_thread (demo_run st)"
  by (simp add: run_reached_def demo_project_def fixed_project_def)

lemma demo_listed: "listed (demo_project st ms) aid um h0 agent thread = Inr ms"
  by (simp add: listed_def demo_project_def fixed_project_def)


section \<open>Stripping\<close>




lemma strip_unique:
  assumes "s = lead @ r @ trail" and "list_all isspace lead" and "list_all isspace trail"
    and "r = [] \<or> (\<not> isspace (hd r) \<and> \<not> isspace (last r))"
  shows "strip s = r"
proof (cases "r = []")
  case True
  then have "list_all isspace s" using assms(1-3) by simp
  then have dn: "dropWhile isspace s = []"
    by (auto simp: list_all_iff dest: set_dropWhileD)
  show ?thesis unfolding strip_def dn using True by simp
next
  case False
  then have h: "\<not> isspace (hd r)" and l: "\<not> isspace (last r)" using assms(4) by simp_all
  have "dropWhile isspace s = dropWhile isspace (r @ trail)"
    using assms(1,2) by (simp add: list_all_iff dropWhile_append2)
  also have "\<dots> = r @ trail"
    using False h by (cases r) simp_all
  finally have d: "dropWhile isspace s = r @ trail" .
  have "dropWhile isspace (rev trail @ rev r) = dropWhile isspace (rev r)"
    by (rule dropWhile_append2) (use assms(3) in \<open>simp add: list_all_iff\<close>)
  then have "dropWhile isspace (rev (r @ trail)) = dropWhile isspace (rev r)"
    by (simp only: rev_append)
  also have "\<dots> = rev r"
    using False l by (cases r rule: rev_cases) simp_all
  finally show ?thesis by (simp add: strip_def d)
qed

section \<open>The reply of a run that did not fail\<close>



text \<open>
  C5. When the run was reached with a status other than \<open>failed\<close> (so also when it
  completed) and the listing holds no assistant message with text, the relay returns
  exactly the no-reply sentinel, as a normal result.
\<close>

theorem relay_no_reply_sentinel:
  assumes "run_reached p aid um h0 agent thread run"
    and "status run \<noteq> ''failed''"
    and "listed p aid um h0 agent thread = Inr messages"
    and "filter assistant_with_text messages = []"
  shows "fst (call_agent p aid um h0) = Inr ''(No assistant reply found.)''"
  using assms(2-4) by (simp add: call_agent_def try_run_reached [OF assms(1)])

theorem relay_no_reply_sentinel_witness:
  "run_reached
     (demo_project ''completed''
        [text_message ''user'' [''q''], text_message ''assistant'' [],
         \<lparr>role = ''assistant'', text_messages = None\<rparr>])
     ''asst_1'' ''q'' [] demo_agent demo_thread (demo_run ''completed'')
   \<and> status (demo_run ''completed'') \<noteq> ''failed''
   \<and> fst (call_agent
        (demo_project ''completed''
           [text_message ''user'' [''q''], text_message ''assistant'' [],
            \<lparr>role = ''assistant'', text_messages = None\<rparr>])
        ''asst_1'' ''q'' []) = Inr ''(No assistant reply found.)''"
proof -
  let ?ms = "[text_message ''user'' [''q''], text_message ''assistant'' [],
              \<lparr>role = ''assistant'', text_messages = None\<rparr>]"
  have st: "status (demo_run ''completed'') \<noteq> ''failed''"
    by (simp add: demo_run_def)
  have none: "filter assistant_with_text ?ms = []"
    by (simp add: assistant_with_text_def text_message_def)
  have rr: "run_reached (demo_project ''completed'' ?ms) ''asst_1'' ''q'' []
              demo_agent demo_thread (demo_run ''completed'')"
    by (rule demo_run_reached)
  have li: "listed (demo_project ''completed'' ?ms) ''asst_1'' ''q'' []
              demo_agent demo_thread = Inr ?ms"
    by (rule demo_listed)
  show ?thesis
    using relay_no_reply_sentinel [OF rr st li none] rr st by simp
qed

text \<open>
  C10. A message that passes the loop's guard has a non-empty list of text chunks, so
  indexing that list at \<open>-1\<close> returns a chunk; and the loop returns its list of answers
  for every list of messages, so it never ends in an \<open>IndexError\<close>.
\<close>

theorem guarded_index_never_fails:
  "(role msg = ''assistant'' \<and> truthy_attr (text_messages msg) \<longrightarrow>
      (\<exists>cs c. text_messages msg = Some cs \<and> cs \<noteq> [] \<and> index_last cs = Inr c))
   \<and> (\<exists>answers'. collect msgs answers = Inr answers')"
proof
  show "role msg = ''assistant'' \<and> truthy_attr (text_messages msg) \<longrightarrow>
      (\<exists>cs c. text_messages msg = Some cs \<and> cs \<noteq> [] \<and> index_last cs = Inr c)"
    by (cases "text_messages msg") (simp_all add: index_last_def)
  show "\<exists>answers'. collect msgs answers = Inr answers'"
    by (simp add: collect_eq)
qed

theorem guarded_index_never_fails_witness:
  "role (text_message ''assistant'' [''a'', ''b'']) = ''assistant''
   \<and> truthy_attr (text_messages (text_message ''assistant'' [''a'', ''b'']))
   \<and> index_last [\<lparr>text_value = ''a''\<rparr>, \<lparr>text_value = ''b''\<rparr>] = Inr \<lparr>text_value = ''b''\<rparr>
   \<and> (\<exists>answers'. collect [text_message ''assistant'' [''a'', ''b'']] [] = Inr answers')"
  using guarded_index_never_fails
    [of "text_message ''assistant'' [''a'', ''b'']" "[text_message ''assistant'' [''a'', ''b'']]" "[]"]
  by (simp add: text_message_def index_last_def)

text \<open>
  C2, as the code has it. With the run reached, the status \<open>failed\<close> ends the relay with
  \<open>Run failed:\<close> and the remote error detail, after one run call and with no listing
  call; every other status, whether \<open>completed\<close> or not, goes on to the listing call.
\<close>

theorem run_status_gate:
  assumes "run_reached p aid um h0 agent thread run"
  shows "(status run = ''failed'' \<longrightarrow>
            call_agent p aid um h0 =
              (Inr (''Run failed: '' @ last_error run),
               h0 @ calls_upto_run aid um agent thread))
       \<and> (status run \<noteq> ''failed'' \<longrightarrow>
            snd (call_agent p aid um h0) =
              h0 @ calls_upto_run aid um agent thread
                 @ [MessagesList (thread_id thread) ASCENDING])"
proof (intro conjI impI)
  assume "status run = ''failed''"
  then show "call_agent p aid um h0 =
      (Inr (''Run failed: '' @ last_error run), h0 @ calls_upto_run aid um agent thread)"
    by (simp add: call_agent_def try_run_reached [OF assms])
next
  assume "status run \<noteq> ''failed''"
  then show "snd (call_agent p aid um h0) =
      h0 @ calls_upto_run aid um agent thread @ [MessagesList (thread_id thread) ASCENDING]"
    by (cases "listed p aid um h0 agent thread")
       (simp_all add: call_agent_def try_run_reached [OF assms] Let_def)
qed

theorem run_status_gate_witness:
  "call_agent (demo_project ''failed'' []) ''asst_1'' ''q'' [] =
     (Inr ''Run failed: rate_limit_exceeded'',
      [GetAgent ''asst_1'', ThreadsCreate, MessagesCreate ''thread_1'' ''user'' ''q'',
       CreateAndProcess ''thread_1'' ''asst_1''])
   \<and> snd (call_agent (demo_project ''expired'' []) ''asst_1'' ''q'' []) =
     [GetAgent ''asst_1'', ThreadsCreate, MessagesCreate ''thread_1'' ''user'' ''q'',
      CreateAndProcess ''thread_1'' ''asst_1'', MessagesList ''thread_1'' ASCENDING]"
proof -
  have f: "status (demo_run ''failed'') = ''failed''"
    and x: "status (demo_run ''expired'') \<noteq> ''failed''"
    by (simp_all add: demo_run_def)
  have rf: "run_reached (demo_project ''failed'' []) ''asst_1'' ''q'' []
              demo_agent demo_thread (demo_run ''failed'')"
    and rx: "run_reached (demo_project ''expired'' []) ''asst_1'' ''q'' []
              demo_agent demo_thread (demo_run ''expired'')"
    by (rule demo_run_reached)+
  show ?thesis
    using run_status_gate [OF rf] run_status_gate [OF rx] f x
    by (simp add: calls_upto_run_def demo_run_def demo_agent_def demo_thread_def)
qed

text \<open>
  The claim C2 as stated fails: a run that ends with the status \<open>cancelled\<close> is not
  short-circuited; the relay lists the messages and returns the assistant text.
\<close>

theorem cancelled_run_is_collected:
  "call_agent (demo_project ''cancelled'' [text_message ''assistant'' [''partial'']])
     ''asst_1'' ''q'' [] =
     (Inr ''partial'',
      [GetAgent ''asst_1'', ThreadsCreate, MessagesCreate ''thread_1'' ''user'' ''q'',
       CreateAndProcess ''thread_1'' ''asst_1'', MessagesList ''thread_1'' ASCENDING])"
  by (simp add: call_agent_def try_run_reached [OF demo_run_reached] demo_listed
      demo_run_def demo_agent_def demo_thread_def calls_upto_run_def
      assistant_with_text_def last_chunk_text_def text_message_def strip_def isspace_def)

section \<open>Exceptions at the relay boundary\<close>

lemma try_raises:
  assumes "raises p aid um h0 e"
  shows "fst (call_agent_try p aid um h0) = Inl e"
  using assms
proof cases
  case at_get_agent
  then show ?thesis by (simp add: call_agent_try_def)
next
  case (at_threads_create agent)
  then show ?thesis by (simp add: call_agent_try_def)
next
  case (at_messages_create agent thread)
  then show ?thesis by (simp add: call_agent_try_def)
next
  case (at_create_and_process agent thread)
  then show ?thesis by (simp add: call_agent_try_def)
next
  case (at_messages_list agent thread run)
  then show ?thesis by (simp add: try_run_reached)
next
  case (at_loop agent thread run messages)
  then show ?thesis by (simp add: collect_eq)
qed

text \<open>
  C4, as the code has it. An exception of class \<open>Exception\<close> raised at any step of the
  relay sequence does not leave the relay: the relay returns \<open>Error calling agent:\<close>
  followed by the text of the exception as it is.
\<close>

theorem relay_catches_exceptions:
  assumes "raises p aid um h0 e" and "isinstance_Exception e"
  shows "fst (call_agent p aid um h0) = Inr (''Error calling agent: '' @ str_exn e)"
proof -
  obtain h where "call_agent_try p aid um h0 = (Inl e, h)"
    using try_raises [OF assms(1)] by (cases "call_agent_try p aid um h0") simp
  then show ?thesis using assms(2) by (simp add: call_agent_def)
qed

theorem relay_catches_exceptions_witness:
  "raises (fixed_project (Inr demo_agent) (Inr demo_thread) (Inr ())
             (Inl (Exception ''connection reset'')) (Inr []))
     ''asst_1'' ''q'' [] (Exception ''connection reset'')
   \<and> isinstance_Exception (Exception ''connection reset'')
   \<and> fst (call_agent
        (fixed_project (Inr demo_agent) (Inr demo_thread) (Inr ())
           (Inl (Exception ''connection reset'')) (Inr []))
        ''asst_1'' ''q'' []) = Inr ''Error calling agent: connection reset''"
proof -
  let ?p = "fixed_project (Inr demo_agent) (Inr demo_thread) (Inr ())
              (Inl (Exception ''connection reset'')) (Inr [])"
  have r: "raises ?p ''asst_1'' ''q'' [] (Exception ''connection reset'')"
    by (rule at_create_and_process [where agent = demo_agent and thread = demo_thread])
       (simp_all add: fixed_project_def)
  have i: "isinstance_Exception (Exception ''connection reset'')" by simp
  show ?thesis using relay_catches_exceptions [OF r i] r i by simp
qed

text \<open>
  The claim C4 as stated fails twice: the text of an exception that spans two lines is
  returned on two lines, and an exception outside the class \<open>Exception\<close> (here a
  \<open>KeyboardInterrupt\<close>, whose text is empty) leaves the relay.
\<close>

theorem relay_error_not_single_line:
  "fst (call_agent
          (fixed_project (Inl (Exception ''(404) Not Found\<newline>Code: 404''))
             (Inr demo_thread) (Inr ()) (Inr (demo_run ''completed'')) (Inr []))
          ''asst_1'' ''q'' []) =
     Inr ''Error calling agent: (404) Not Found\<newline>Code: 404''
   \<and> fst (call_agent
          (fixed_project (Inl (BaseException ''''))
             (Inr demo_thread) (Inr ()) (Inr (demo_run ''completed'')) (Inr []))
          ''asst_1'' ''q'' []) = Inl (BaseException '''')"
  by (simp add: call_agent_def call_agent_try_def fixed_project_def)

section \<open>Threads and messages of an invocation\<close>

text \<open>
  C9, as the code has it. An invocation whose agent lookup raises issues no further call:
  it creates no thread and posts no message. An invocation whose agent lookup and thread
  creation return issues exactly one thread creation, posts the user message once to the
  thread it was given, and names that thread in every later call.
\<close>

theorem relay_thread_per_invocation:
  "(agents_get_agent p h0 aid = Inl e \<longrightarrow> snd (call_agent p aid um h0) = h0 @ [GetAgent aid])
   \<and> (agents_get_agent p h0 aid = Inr agent
        \<and> agents_threads_create p (h0 @ [GetAgent aid]) = Inr thread \<longrightarrow>
      (\<exists>rest. snd (call_agent p aid um h0) =
                 h0 @ [GetAgent aid, ThreadsCreate,
                       MessagesCreate (thread_id thread) ''user'' um] @ rest
              \<and> prefix rest [CreateAndProcess (thread_id thread) (agent_id agent),
                              MessagesList (thread_id thread) ASCENDING]))"
proof (intro conjI impI)
  assume "agents_get_agent p h0 aid = Inl e"
  then show "snd (call_agent p aid um h0) = h0 @ [GetAgent aid]"
    by (simp add: call_agent_def call_agent_try_def)
next
  assume ok: "agents_get_agent p h0 aid = Inr agent
      \<and> agents_threads_create p (h0 @ [GetAgent aid]) = Inr thread"
  let ?c1 = "[GetAgent aid, ThreadsCreate, MessagesCreate (thread_id thread) ''user'' um]"
  let ?c4 = "CreateAndProcess (thread_id thread) (agent_id agent)"
  let ?c5 = "MessagesList (thread_id thread) ASCENDING"
  have "snd (call_agent p aid um h0) = h0 @ ?c1 @ []
      \<or> snd (call_agent p aid um h0) = h0 @ ?c1 @ [?c4]
      \<or> snd (call_agent p aid um h0) = h0 @ ?c1 @ [?c4, ?c5]"
    using ok
    by (simp add: call_agent_def call_agent_try_def Let_def split: sum.splits)
  moreover have "prefix [] [?c4, ?c5]" "prefix [?c4] [?c4, ?c5]" "prefix [?c4, ?c5] [?c4, ?c5]"
    by simp_all
  ultimately show "\<exists>rest. snd (call_agent p aid um h0) = h0 @ ?c1 @ rest
      \<and> prefix rest [?c4, ?c5]"
    by blast
qed

theorem relay_thread_per_invocation_witness:
  "snd (call_agent
          (fixed_project (Inl (Exception ''agent not found'')) (Inr demo_thread) (Inr ())
             (Inr (demo_run ''completed'')) (Inr []))
          ''asst_1'' ''q'' []) = [GetAgent ''asst_1'']
   \<and> (\<exists>rest. snd (call_agent (demo_project ''completed'' []) ''asst_1'' ''q'' []) =
                [GetAgent ''asst_1'', ThreadsCreate,
                 MessagesCreate ''thread_1'' ''user'' ''q''] @ rest
             \<and> prefix rest [CreateAndProcess ''thread_1'' ''asst_1'',
                             MessagesList ''thread_1'' ASCENDING])"
proof -
  let ?bad = "fixed_project (Inl (Exception ''agent not found'')) (Inr demo_thread) (Inr ())
                (Inr (demo_run ''completed'')) (Inr [])"
  have a: "agents_get_agent ?bad [] ''asst_1'' = Inl (Exception ''agent not found'')"
    by (simp add: fixed_project_def)
  have b: "agents_get_agent (demo_project ''completed'' []) [] ''asst_1'' = Inr demo_agent
      \<and> agents_threads_create (demo_project ''completed'' []) ([] @ [GetAgent ''asst_1''])
          = Inr demo_thread"
    by (simp add: demo_project_def fixed_project_def)
  have first: "snd (call_agent ?bad ''asst_1'' ''q'' []) = [GetAgent ''asst_1'']"
    using relay_thread_per_invocation
      [of ?bad "[]" "''asst_1''" "Exception ''agent not found''" "''q''" demo_agent demo_thread]
      a by simp
  have second: "\<exists>rest. snd (call_agent (demo_project ''completed'' []) ''asst_1'' ''q'' []) =
                [GetAgent ''asst_1'', ThreadsCreate,
                 MessagesCreate ''thread_1'' ''user'' ''q''] @ rest
             \<and> prefix rest [CreateAndProcess ''thread_1'' ''asst_1'',
                             MessagesList ''thread_1'' ASCENDING]"
    using relay_thread_per_invocation
      [of "demo_project ''completed'' []" "[]" "''asst_1''" "Exception ''x''" "''q''"
          demo_agent demo_thread]
      b by (simp add: demo_agent_def demo_thread_def)
  show ?thesis using first second by simp
qed

text \<open>
  The claim C9 as stated fails: when the agent lookup raises, the invocation ends after
  that one call, with no thread created and no message posted.
\<close>

theorem failed_lookup_creates_no_thread:
  "call_agent
     (fixed_project (Inl (Exception ''agent not found'')) (Inr demo_thread) (Inr ())
        (Inr (demo_run ''completed'')) (Inr []))
     ''asst_1'' ''q'' [] =
     (Inr ''Error calling agent: agent not found'', [GetAgent ''asst_1''])"
  by (simp add: call_agent_def call_agent_try_def fixed_project_def)

section \<open>The startup check\<close>

text \<open>
  The configuration code raises exactly when one of the two variables is set to the empty
  string.
\<close>

lemma startup_raises_iff_set_empty:
  "(\<exists>e. startup environ = Inl e) =
     (environ ''PROJECT_ENDPOINT'' = Some [] \<or> environ ''AGENT_ID'' = Some [])"
  by (auto simp: startup_def environ_get_def Let_def split: option.splits)

text \<open>
  C3 at the empty environment. With neither \<open>PROJECT_ENDPOINT\<close> nor \<open>AGENT_ID\<close> set, the
  configuration code does not raise its \<open>is not set\<close> errors: the fallback values of the
  two lookups make both guards pass, and the start goes on with them.
\<close>

theorem startup_with_empty_environment:
  "startup Map.empty =
     Inr \<lparr>PROJECT_ENDPOINT =
            ''https://companyresearch.services.ai.azure.com/api/projects/companyResearch'',
          AGENT_ID = ''asst_Wb2ElHzBXdZtjCIOXlwoE8a3''\<rparr>"
  by (simp add: startup_def environ_get_def)

section \<open>String replacement\<close>

lemma replace_ne_single:
  "replace_ne [c] new s = concat (map (\<lambda>x. if x = c then new else [x]) s)"
  by (induction s) auto

lemma escape_str: "escape (PStr s) = Inr (concat (map escape_char s))"
  by (induction s) (simp_all add: escape_def replace_def replace_ne_single escape_char_def)

lemma replace_ne_clear:
  "clear_before old xs \<Longrightarrow> replace_ne old new (xs @ ys) = xs @ replace_ne old new ys"
proof (induction xs)
  case Nil
  then show ?case by simp
next
  case (Cons c cs)
  then have np: "\<not> prefix old (c # cs)" and nq: "\<not> prefix (c # cs) old"
    and rest: "clear_before old cs" by simp_all
  have "\<not> prefix old ((c # cs) @ ys)"
  proof
    assume "prefix old ((c # cs) @ ys)"
    then have "prefix old (c # cs) \<or> (\<exists>us. old = (c # cs) @ us \<and> prefix us ys)"
      by (simp only: prefix_append)
    then show False using np nq by (auto simp: prefix_def)
  qed
  then show ?case using Cons.IH [OF rest] by simp
qed

lemma replace_ne_clear_all: "clear_before old xs \<Longrightarrow> replace_ne old new xs = xs"
  using replace_ne_clear [of old xs new "[]"] by simp

lemma replace_ne_match:
  "old \<noteq> [] \<Longrightarrow> replace_ne old new (old @ ys) = new @ replace_ne old new ys"
  by (cases old) simp_all

section \<open>The template and its placeholders\<close>

lemma HTML_tail:
  \<open>drop 1953 HTML =
     ''{{message}}'' @
     ''</textarea>\<newline>    <div class="hint">\<newline>      The agent will search recent filings and summarize relevant leadership moves.\<newline>    </div>\<newline>    <button type="submit">Ask</button>\<newline>  </form>\<newline>\<newline>  '' @
     ''{{answer_block}}'' @ ''\<newline></body>\<newline></html>\<newline>''\<close>
  by (simp add: HTML_def)

lemma HTML_mid_eq:
  \<open>HTML_mid = ''</textarea>\<newline>    <div class="hint">\<newline>      The agent will search recent filings and summarize relevant leadership moves.\<newline>    </div>\<newline>    <button type="submit">Ask</button>\<newline>  </form>\<newline>\<newline>  ''\<close>
proof -
  have "drop 1964 HTML = drop 11 (drop 1953 HTML)" by simp
  then show ?thesis by (simp add: HTML_mid_def HTML_tail)
qed

lemma HTML_post_eq: "HTML_post = ''\<newline></body>\<newline></html>\<newline>''"
proof -
  have "drop 2162 HTML = drop 209 (drop 1953 HTML)" by simp
  then show ?thesis by (simp add: HTML_post_def HTML_tail)
qed

lemma HTML_split:
  "HTML = HTML_pre @ ''{{message}}'' @ HTML_mid @ ''{{answer_block}}'' @ HTML_post"
proof -
  have "HTML = take 1953 HTML @ drop 1953 HTML" by simp
  then show ?thesis by (simp add: HTML_pre_def HTML_mid_eq HTML_post_eq HTML_tail)
qed

lemma clear_pre_message: "clear_before ''{{message}}'' HTML_pre"
  by (simp add: HTML_pre_def HTML_def)

lemma clear_pre_block: "clear_before ''{{answer_block}}'' HTML_pre"
  by (simp add: HTML_pre_def HTML_def)

lemma clear_rest_message:
  "clear_before ''{{message}}'' (HTML_mid @ ''{{answer_block}}'' @ HTML_post)"
  by (simp add: HTML_mid_eq HTML_post_eq)

lemma clear_mid_block: "clear_before ''{{answer_block}}'' HTML_mid"
  by (simp add: HTML_mid_eq)

lemma clear_post_block: "clear_before ''{{answer_block}}'' HTML_post"
  by (simp add: HTML_post_eq)

lemma fill_message:
  "replace HTML ''{{message}}'' sm =
     HTML_pre @ sm @ HTML_mid @ ''{{answer_block}}'' @ HTML_post"
proof -
  have "replace HTML ''{{message}}'' sm =
      replace_ne ''{{message}}'' sm
        (HTML_pre @ ''{{message}}'' @ HTML_mid @ ''{{answer_block}}'' @ HTML_post)"
    using HTML_split by (simp add: replace_def)
  also have "\<dots> = HTML_pre @ replace_ne ''{{message}}'' sm
        (''{{message}}'' @ HTML_mid @ ''{{answer_block}}'' @ HTML_post)"
    by (rule replace_ne_clear [OF clear_pre_message])
  also have "replace_ne ''{{message}}'' sm
        (''{{message}}'' @ HTML_mid @ ''{{answer_block}}'' @ HTML_post) =
      sm @ replace_ne ''{{message}}'' sm (HTML_mid @ ''{{answer_block}}'' @ HTML_post)"
    by (rule replace_ne_match) simp
  also have "replace_ne ''{{message}}'' sm (HTML_mid @ ''{{answer_block}}'' @ HTML_post) =
      HTML_mid @ ''{{answer_block}}'' @ HTML_post"
    by (rule replace_ne_clear_all [OF clear_rest_message])
  finally show ?thesis .
qed

lemma fill_block_rest:
  "replace_ne ''{{answer_block}}'' b (HTML_mid @ ''{{answer_block}}'' @ HTML_post) =
     HTML_mid @ b @ HTML_post"
proof -
  have "replace_ne ''{{answer_block}}'' b (HTML_mid @ ''{{answer_block}}'' @ HTML_post) =
      HTML_mid @ replace_ne ''{{answer_block}}'' b (''{{answer_block}}'' @ HTML_post)"
    by (rule replace_ne_clear [OF clear_mid_block])
  also have "replace_ne ''{{answer_block}}'' b (''{{answer_block}}'' @ HTML_post) =
      b @ replace_ne ''{{answer_block}}'' b HTML_post"
    by (rule replace_ne_match) simp
  also have "replace_ne ''{{answer_block}}'' b HTML_post = HTML_post"
    by (rule replace_ne_clear_all [OF clear_post_block])
  finally show ?thesis .
qed

text \<open>What \<open>render\<close> computes on two strings, in terms of the two replacements.\<close>

lemma render_strings:
  "render (PStr m) (PStr a) =
     Inr (HTML_pre @
          replace_ne ''{{answer_block}}'' (answer_block_of a)
            (concat (map escape_char m) @ HTML_mid @ ''{{answer_block}}'' @ HTML_post))"
proof -
  have msg: "escape (if truthy (PStr m) then PStr m else PStr '''') =
      Inr (concat (map escape_char m))"
    by (cases m) (simp_all add: escape_str)
  have blk: "(if truthy (PStr a)
        then (case escape (PStr a) of
                Inl e \<Rightarrow> Inl e
              | Inr safe_answer \<Rightarrow>
                  Inr (''<div class=\"answer\">'' @ ''<strong>Answer</strong><br/>''
                       @ safe_answer @ ''</div>''))
        else Inr '''') = Inr (answer_block_of a)"
    by (simp add: escape_str answer_block_of_def)
  have "render (PStr m) (PStr a) =
      Inr (replace (replace HTML ''{{message}}'' (concat (map escape_char m)))
             ''{{answer_block}}'' (answer_block_of a))"
    unfolding render_def msg blk by simp
  also have "replace (replace HTML ''{{message}}'' (concat (map escape_char m)))
             ''{{answer_block}}'' (answer_block_of a) =
      replace_ne ''{{answer_block}}'' (answer_block_of a)
        (HTML_pre @ concat (map escape_char m) @ HTML_mid @ ''{{answer_block}}'' @ HTML_post)"
    by (simp only: fill_message) (simp add: replace_def)
  also have "\<dots> = HTML_pre @ replace_ne ''{{answer_block}}'' (answer_block_of a)
        (concat (map escape_char m) @ HTML_mid @ ''{{answer_block}}'' @ HTML_post)"
    by (rule replace_ne_clear [OF clear_pre_block])
  finally show ?thesis .
qed

lemma render_clear:
  assumes "clear_before ''{{answer_block}}'' (concat (map escape_char m))"
  shows "render (PStr m) (PStr a) =
     Inr (HTML_pre @ concat (map escape_char m) @ HTML_mid @ answer_block_of a @ HTML_post)"
  by (simp only: render_strings replace_ne_clear [OF assms] fill_block_rest)

section \<open>Rendering\<close>

text \<open>
  C7. The three replacements, in the order ampersand, less-than, greater-than, escape
  every character of the input exactly once: the result is the concatenation of the
  escaped characters, so no entity is escaped again. The message \<open><script>\<close> becomes
  \<open>&lt;script&gt;\<close>, in the escaping step and in the rendered page.
\<close>

theorem escape_each_character_once:
  "escape (PStr s) = Inr (concat (map escape_char s))
   \<and> escape (PStr ''<script>'') = Inr ''&lt;script&gt;''
   \<and> escape (PStr ''<script>'') \<noteq> Inr ''&amp;lt;script&amp;gt;''
   \<and> render (PStr ''<script>'') (PStr '''') =
       Inr (HTML_pre @ ''&lt;script&gt;'' @ HTML_mid @ HTML_post)"
proof -
  have e: "concat (map escape_char ''<script>'') = ''&lt;script&gt;''"
    by (simp add: escape_char_def)
  have c: "clear_before ''{{answer_block}}'' (concat (map escape_char ''<script>''))"
    unfolding e by simp
  have r: "render (PStr ''<script>'') (PStr '''') =
      Inr (HTML_pre @ ''&lt;script&gt;'' @ HTML_mid @ HTML_post)"
    unfolding render_clear [OF c] e by (simp add: answer_block_of_def)
  have "escape (PStr ''<script>'') = Inr ''&lt;script&gt;''"
    by (simp only: escape_str e)
  then show ?thesis using r by (simp add: escape_str)
qed

text \<open>
  C6 at the message \<open>{{answer_block}}\<close>. The second replacement also rewrites the
  placeholder text that the first one has put into the editable field: with the answer
  \<open>x\<close> the page holds the answer block twice, once inside the field, and with an empty
  answer the field is empty; in both the message itself is gone from the page.
\<close>

theorem placeholder_message_takes_answer_block:
  \<open>render (PStr ''{{answer_block}}'') (PStr ''x'') =
     Inr (HTML_pre @ ''<div class="answer"><strong>Answer</strong><br/>x</div>''
          @ HTML_mid @ ''<div class="answer"><strong>Answer</strong><br/>x</div>''
          @ HTML_post)
   \<and> render (PStr ''{{answer_block}}'') (PStr '''') = Inr (HTML_pre @ HTML_mid @ HTML_post)\<close>
proof -
  have e: "concat (map escape_char ''{{answer_block}}'') = ''{{answer_block}}''"
    by (simp add: escape_char_def)
  have twice: "replace_ne ''{{answer_block}}'' b
      (''{{answer_block}}'' @ HTML_mid @ ''{{answer_block}}'' @ HTML_post) =
      b @ HTML_mid @ b @ HTML_post" for b
  proof -
    have "replace_ne ''{{answer_block}}'' b
        (''{{answer_block}}'' @ HTML_mid @ ''{{answer_block}}'' @ HTML_post) =
        b @ replace_ne ''{{answer_block}}'' b (HTML_mid @ ''{{answer_block}}'' @ HTML_post)"
      by (rule replace_ne_match) simp
    then show ?thesis by (simp only: fill_block_rest)
  qed
  have r: "render (PStr ''{{answer_block}}'') (PStr a) =
      Inr (HTML_pre @ answer_block_of a @ HTML_mid @ answer_block_of a @ HTML_post)" for a
    by (simp only: render_strings e twice)
  have x: \<open>answer_block_of ''x'' = ''<div class="answer"><strong>Answer</strong><br/>x</div>''\<close>
    by (simp add: answer_block_of_def escape_char_def)
  have n: "answer_block_of '''' = ''''"
    by (simp add: answer_block_of_def)
  show ?thesis
    unfolding r x n by simp
qed




end
